theory Spec2Isabelle
  imports Complex_Main
begin

section \<open>JavaScript values\<close>

text \<open>
  The cart code is dynamically typed: a cart line's fields hold whatever the callers
  pass, and the quantity box of the rendered cart passes its value as text
  (\<^verbatim>\<open>onchange="updateQuantity(id, this.value)"\<close>). The values that reach the code
  are the primitives below.

  A number is a rational or one of the three special doubles. On finite values
  \<open>+\<close>, \<open>*\<close> and the comparisons are the exact ones: this is what doubles compute as
  long as every operand and result is representable (all integers of magnitude up
  to \<open>2^53\<close>, and the decimal fractions with few digits). Rounding, overflow to
  infinity, underflow to zero and the sign of zero are not modelled.
\<close>

datatype jsnum = Fin rat | NaN | PosInf | NegInf

datatype jsval = JUndefined | JNull | JBool bool | JNum jsnum | JStr string

instantiation jsnum :: "{zero, plus, times}"
begin

definition zero_jsnum :: jsnum where
  "zero_jsnum = Fin 0"

fun plus_jsnum :: "jsnum \<Rightarrow> jsnum \<Rightarrow> jsnum" where
  "plus_jsnum NaN y = NaN"
| "plus_jsnum x NaN = NaN"
| "plus_jsnum PosInf NegInf = NaN"
| "plus_jsnum NegInf PosInf = NaN"
| "plus_jsnum PosInf y = PosInf"
| "plus_jsnum x PosInf = PosInf"
| "plus_jsnum NegInf y = NegInf"
| "plus_jsnum x NegInf = NegInf"
| "plus_jsnum (Fin a) (Fin b) = Fin (a + b)"

fun times_jsnum :: "jsnum \<Rightarrow> jsnum \<Rightarrow> jsnum" where
  "times_jsnum NaN y = NaN"
| "times_jsnum x NaN = NaN"
| "times_jsnum (Fin a) (Fin b) = Fin (a * b)"
| "times_jsnum (Fin a) PosInf = (if a = 0 then NaN else if 0 < a then PosInf else NegInf)"
| "times_jsnum (Fin a) NegInf = (if a = 0 then NaN else if 0 < a then NegInf else PosInf)"
| "times_jsnum PosInf (Fin b) = (if b = 0 then NaN else if 0 < b then PosInf else NegInf)"
| "times_jsnum NegInf (Fin b) = (if b = 0 then NaN else if 0 < b then NegInf else PosInf)"
| "times_jsnum PosInf PosInf = PosInf"
| "times_jsnum PosInf NegInf = NegInf"
| "times_jsnum NegInf PosInf = NegInf"
| "times_jsnum NegInf NegInf = PosInf"

instance ..

end

lemma jsnum_add_assoc: "(a + b) + c = a + (b + (c :: jsnum))"
  by (cases a; cases b; cases c) simp_all

lemma jsnum_add_commute: "a + b = b + (a :: jsnum)"
  by (cases a; cases b) simp_all

lemma jsnum_add_zero: "Fin 0 + a = a"
  by (cases a) simp_all

instance jsnum :: comm_monoid_add
proof
  fix a b c :: jsnum
  show "a + b + c = a + (b + c)" by (rule jsnum_add_assoc)
  show "a + b = b + a" by (rule jsnum_add_commute)
  show "0 + a = a" by (simp add: zero_jsnum_def jsnum_add_zero)
qed

text \<open>\<open>x <= y\<close> and \<open>x < y\<close> on numbers: false as soon as one side is \<open>NaN\<close>.\<close>

fun num_le :: "jsnum \<Rightarrow> jsnum \<Rightarrow> bool" where
  "num_le NaN y = False"
| "num_le x NaN = False"
| "num_le (Fin a) (Fin b) = (a \<le> b)"
| "num_le NegInf y = True"
| "num_le x PosInf = True"
| "num_le PosInf y = False"
| "num_le x NegInf = False"

fun num_lt :: "jsnum \<Rightarrow> jsnum \<Rightarrow> bool" where
  "num_lt NaN y = False"
| "num_lt x NaN = False"
| "num_lt (Fin a) (Fin b) = (a < b)"
| "num_lt PosInf y = False"
| "num_lt x NegInf = False"
| "num_lt NegInf y = True"
| "num_lt x PosInf = True"

fun num_neg :: "jsnum \<Rightarrow> jsnum" where
  "num_neg (Fin a) = Fin (- a)"
| "num_neg NaN = NaN"
| "num_neg PosInf = NegInf"
| "num_neg NegInf = PosInf"

subsection \<open>Text to number\<close>

text \<open>
  \<open>StringToNumber\<close> is the conversion the language applies to a string operand of
  \<open>*\<close>, \<open>-\<close> and of a comparison with a number: white space is trimmed, the empty
  string is \<open>0\<close>, a decimal literal may carry a sign, a fraction and an exponent, the
  prefixes \<open>0x\<close>, \<open>0o\<close> and \<open>0b\<close> take no sign, and everything else is \<open>NaN\<close>.
  Strings are byte strings here, so only the ASCII white space is trimmed.
\<close>

definition is_space :: "char \<Rightarrow> bool" where
  "is_space c = ((of_char c :: nat) \<in> {9, 10, 11, 12, 13, 32})"

definition trim_start :: "string \<Rightarrow> string" where
  "trim_start s = dropWhile is_space s"

definition trim :: "string \<Rightarrow> string" where
  "trim s = rev (dropWhile is_space (rev (dropWhile is_space s)))"

definition digit_of :: "nat \<Rightarrow> char \<Rightarrow> nat option" where
  "digit_of radix c =
     (let n = (of_char c :: nat);
          v = (if 48 \<le> n \<and> n \<le> 57 then Some (n - 48)
               else if 97 \<le> n \<and> n \<le> 122 then Some (n - 87)
               else if 65 \<le> n \<and> n \<le> 90 then Some (n - 55)
               else None)
      in case v of None \<Rightarrow> None | Some d \<Rightarrow> if d < radix then Some d else None)"

definition is_digit :: "nat \<Rightarrow> char \<Rightarrow> bool" where
  "is_digit radix c = (digit_of radix c \<noteq> None)"

definition digits_value :: "nat \<Rightarrow> string \<Rightarrow> int" where
  "digits_value radix ds =
     foldl (\<lambda>acc c. acc * int radix + (case digit_of radix c of None \<Rightarrow> 0 | Some d \<Rightarrow> int d)) 0 ds"

definition scale10 :: "rat \<Rightarrow> int \<Rightarrow> rat" where
  "scale10 x e = (if 0 \<le> e then x * 10 ^ nat e else x / 10 ^ nat (- e))"

text \<open>The exponent part of a decimal literal: absent, or \<open>e\<close>, an optional sign and digits.\<close>

definition exponent_part :: "string \<Rightarrow> int option" where
  "exponent_part r =
     (case r of
        [] \<Rightarrow> Some 0
      | c # t \<Rightarrow>
          if c = CHR ''e'' \<or> c = CHR ''E'' then
            (case t of
               [] \<Rightarrow> None
             | d # u \<Rightarrow>
                 if d = CHR ''-'' then
                   (if u \<noteq> [] \<and> list_all (is_digit 10) u
                    then Some (- digits_value 10 u) else None)
                 else if d = CHR ''+'' then
                   (if u \<noteq> [] \<and> list_all (is_digit 10) u
                    then Some (digits_value 10 u) else None)
                 else
                   (if list_all (is_digit 10) t
                    then Some (digits_value 10 t) else None))
          else None)"

definition unsigned_decimal :: "string \<Rightarrow> jsnum" where
  "unsigned_decimal s =
     (if s = ''Infinity'' then PosInf
      else
        let ip = takeWhile (is_digit 10) s;
            r1 = dropWhile (is_digit 10) s;
            fp = (case r1 of c # t \<Rightarrow> if c = CHR ''.'' then takeWhile (is_digit 10) t else []
                  | [] \<Rightarrow> []);
            r2 = (case r1 of c # t \<Rightarrow> if c = CHR ''.'' then dropWhile (is_digit 10) t else r1
                  | [] \<Rightarrow> [])
        in if ip = [] \<and> fp = [] then NaN
           else case exponent_part r2 of
                  None \<Rightarrow> NaN
                | Some e \<Rightarrow>
                    Fin (scale10 (of_int (digits_value 10 (ip @ fp))) (e - int (length fp))))"

definition prefixed_literal :: "nat \<Rightarrow> string \<Rightarrow> jsnum" where
  "prefixed_literal radix ds =
     (if ds \<noteq> [] \<and> list_all (is_digit radix) ds then Fin (of_int (digits_value radix ds))
      else NaN)"

definition StringToNumber :: "string \<Rightarrow> jsnum" where
  "StringToNumber s =
     (case trim s of
        [] \<Rightarrow> Fin 0
      | c # t \<Rightarrow>
          if c = CHR ''+'' then unsigned_decimal t
          else if c = CHR ''-'' then num_neg (unsigned_decimal t)
          else if c = CHR ''0'' then
            (case t of
               [] \<Rightarrow> Fin 0
             | p # ds \<Rightarrow>
                 if p = CHR ''x'' \<or> p = CHR ''X'' then prefixed_literal 16 ds
                 else if p = CHR ''o'' \<or> p = CHR ''O'' then prefixed_literal 8 ds
                 else if p = CHR ''b'' \<or> p = CHR ''B'' then prefixed_literal 2 ds
                 else unsigned_decimal (c # t))
          else unsigned_decimal (c # t))"

subsection \<open>Number to text\<close>

text \<open>The decimal digits of an integer that is not negative.\<close>

function decimal_digits :: "int \<Rightarrow> string" where
  "decimal_digits n =
     (if n < 10 then [char_of (48 + n)]
      else decimal_digits (n div 10) @ [char_of (48 + n mod 10)])"
  by pat_completeness auto
termination
  by (relation "measure nat") auto

declare decimal_digits.simps [simp del]

fun fraction_digits :: "nat \<Rightarrow> rat \<Rightarrow> string" where
  "fraction_digits 0 f = []"
| "fraction_digits (Suc k) f =
     (if f = 0 then []
      else let d = \<lfloor>f * 10\<rfloor>
           in char_of (48 + d) # fraction_digits k (f * 10 - of_int d))"

text \<open>
  The text of a number, as \<open>+\<close> produces it when the other operand is a string. It
  agrees with the language on the integers below \<open>10^21\<close> and on the decimal fractions
  of magnitude at least \<open>10^-6\<close> with up to twenty places; the language prints the other
  numbers with an exponent, which is not reproduced.
\<close>

definition unsigned_text :: "rat \<Rightarrow> string" where
  "unsigned_text r =
     (let ip = \<lfloor>r\<rfloor>; f = r - of_int ip
      in if f = 0 then decimal_digits ip
         else decimal_digits ip @ ''.'' @ fraction_digits 20 f)"

fun NumberToString :: "jsnum \<Rightarrow> string" where
  "NumberToString NaN = ''NaN''"
| "NumberToString PosInf = ''Infinity''"
| "NumberToString NegInf = ''-Infinity''"
| "NumberToString (Fin r) = (if r < 0 then ''-'' @ unsigned_text (- r) else unsigned_text r)"

subsection \<open>Coercions and operators\<close>

fun ToNumber :: "jsval \<Rightarrow> jsnum" where
  "ToNumber JUndefined = NaN"
| "ToNumber JNull = Fin 0"
| "ToNumber (JBool b) = (if b then Fin 1 else Fin 0)"
| "ToNumber (JNum n) = n"
| "ToNumber (JStr s) = StringToNumber s"

fun ToString :: "jsval \<Rightarrow> string" where
  "ToString JUndefined = ''undefined''"
| "ToString JNull = ''null''"
| "ToString (JBool b) = (if b then ''true'' else ''false'')"
| "ToString (JNum n) = NumberToString n"
| "ToString (JStr s) = s"

fun truthy :: "jsval \<Rightarrow> bool" where
  "truthy JUndefined = False"
| "truthy JNull = False"
| "truthy (JBool b) = b"
| "truthy (JNum n) = (n \<noteq> Fin 0 \<and> n \<noteq> NaN)"
| "truthy (JStr s) = (s \<noteq> [])"

fun is_string :: "jsval \<Rightarrow> bool" where
  "is_string (JStr s) = True"
| "is_string v = False"

text \<open>\<open>a + b\<close>: concatenation as soon as one operand is a string, addition otherwise.\<close>

definition js_add :: "jsval \<Rightarrow> jsval \<Rightarrow> jsval" where
  "js_add a b =
     (if is_string a \<or> is_string b then JStr (ToString a @ ToString b)
      else JNum (ToNumber a + ToNumber b))"

text \<open>\<open>a * b\<close>: always a number.\<close>

definition js_mul :: "jsval \<Rightarrow> jsval \<Rightarrow> jsval" where
  "js_mul a b = JNum (ToNumber a * ToNumber b)"

text \<open>\<open>a === b\<close>: same type and same value, and \<open>NaN\<close> equals nothing.\<close>

definition strict_eq :: "jsval \<Rightarrow> jsval \<Rightarrow> bool" where
  "strict_eq a b = (a = b \<and> a \<noteq> JNum NaN)"

fun str_lt :: "string \<Rightarrow> string \<Rightarrow> bool" where
  "str_lt [] [] = False"
| "str_lt [] (y # ys) = True"
| "str_lt (x # xs) [] = False"
| "str_lt (x # xs) (y # ys) =
     ((of_char x :: nat) < of_char y \<or> (x = y \<and> str_lt xs ys))"

text \<open>\<open>a < b\<close> and \<open>a <= b\<close>: by text when both are strings, by number otherwise.\<close>

fun js_lt :: "jsval \<Rightarrow> jsval \<Rightarrow> bool" where
  "js_lt (JStr s) (JStr t) = str_lt s t"
| "js_lt a b = num_lt (ToNumber a) (ToNumber b)"

fun js_le :: "jsval \<Rightarrow> jsval \<Rightarrow> bool" where
  "js_le (JStr s) (JStr t) = (\<not> str_lt t s)"
| "js_le a b = num_le (ToNumber a) (ToNumber b)"

definition js_gt :: "jsval \<Rightarrow> jsval \<Rightarrow> bool" where
  "js_gt a b = js_lt b a"

section \<open>The cart and the page around it\<close>

text \<open>
  A cart line is the object \<^verbatim>\<open>{id, name, price, quantity}\<close> that \<open>addToCart\<close>
  builds; the cart is the array of these objects, in insertion order.
\<close>

record line =
  item_id :: jsval
  item_name :: jsval
  item_price :: jsval
  item_quantity :: jsval

subsection \<open>The Persistent Store\<close>

text \<open>
  \<open>localStorage\<close> maps keys to strings. The cart code writes only what
  \<open>JSON.stringify\<close> returns and reads only through \<open>JSON.parse\<close>, so a stored
  string is represented by the JSON value it denotes, and a string that is not JSON
  text by \<open>Unparseable\<close>.
\<close>

datatype json =
    JsonNull
  | JsonBool bool
  | JsonNumber rat
  | JsonString string
  | JsonArray "json list"
  | JsonObject "(string \<times> json) list"

datatype stored = JsonText json | Unparseable

datatype error = TypeError | SyntaxError

text \<open>
  \<open>JSON.stringify\<close> of the cart: a property whose value is \<open>undefined\<close> is left out,
  and a number that is not finite is written \<open>null\<close>.
\<close>

fun json_of_value :: "jsval \<Rightarrow> json option" where
  "json_of_value JUndefined = None"
| "json_of_value JNull = Some JsonNull"
| "json_of_value (JBool b) = Some (JsonBool b)"
| "json_of_value (JNum (Fin r)) = Some (JsonNumber r)"
| "json_of_value (JNum n) = Some JsonNull"
| "json_of_value (JStr s) = Some (JsonString s)"

definition json_property :: "string \<Rightarrow> jsval \<Rightarrow> (string \<times> json) list" where
  "json_property k v = (case json_of_value v of None \<Rightarrow> [] | Some j \<Rightarrow> [(k, j)])"

definition json_of_line :: "line \<Rightarrow> json" where
  "json_of_line l =
     JsonObject (json_property ''id'' (item_id l) @ json_property ''name'' (item_name l)
       @ json_property ''price'' (item_price l) @ json_property ''quantity'' (item_quantity l))"

definition JSON_stringify :: "line list \<Rightarrow> stored" where
  "JSON_stringify c = JsonText (JsonArray (map json_of_line c))"

text \<open>
  \<open>JSON.parse(localStorage.getItem(key))\<close>: \<open>getItem\<close> gives \<open>null\<close> for a missing key,
  which \<open>JSON.parse\<close> reads as the text \<open>null\<close>; text that is not JSON raises
  \<open>SyntaxError\<close>.
\<close>

fun JSON_parse :: "stored option \<Rightarrow> error + json" where
  "JSON_parse None = Inr JsonNull"
| "JSON_parse (Some Unparseable) = Inl SyntaxError"
| "JSON_parse (Some (JsonText v)) = Inr v"

fun json_truthy :: "json \<Rightarrow> bool" where
  "json_truthy JsonNull = False"
| "json_truthy (JsonBool b) = b"
| "json_truthy (JsonNumber r) = (r \<noteq> 0)"
| "json_truthy (JsonString s) = (s \<noteq> [])"
| "json_truthy (JsonArray xs) = True"
| "json_truthy (JsonObject ps) = True"

subsection \<open>Page state\<close>

text \<open>
  What the cart script reads and writes: its global \<open>cart\<close>, \<open>localStorage\<close> (with
  the list of every \<open>setItem\<close> call issued, oldest first), the console, the four
  elements it looks up by id (\<open>None\<close> when the page has no such element), the clock and
  the pending timeouts.

  Markup is represented by the data interpolated into it: the rows of the cart by the
  lines they show, the footer by the total it prints, a toast text by the product name
  and the item count it mentions.
\<close>

datatype markup =
    StaticMarkup
  | EmptyCartMarkup
  | CartRowsMarkup "line list"
  | CartTotalMarkup jsval

datatype message = Message string | AddedMessage jsval jsval

datatype log = LogAddToCart jsval jsval jsval | LogClearCancelled

datatype callback = FadeOut | HideToast

record badge =
  badge_text :: jsval
  badge_display :: string

record toast_el =
  toast_text :: message
  toast_display :: string
  toast_opacity :: string

record page =
  cart :: "line list"
  localStorage :: "string \<Rightarrow> stored option"
  setItem_calls :: "(string \<times> stored) list"
  console :: "log list"
  cart_items :: "markup option"
  cart_total :: "markup option"
  cart_count :: "badge option"
  toast :: "toast_el option"
  now :: nat
  timers :: "(nat \<times> callback) list"

datatype outcome = Returned | Threw error

definition setItem :: "string \<Rightarrow> stored \<Rightarrow> page \<Rightarrow> page" where
  "setItem k v s =
     s\<lparr>localStorage := (localStorage s)(k \<mapsto> v), setItem_calls := setItem_calls s @ [(k, v)]\<rparr>"

subsection \<open>Start-up\<close>

text \<open>\<^verbatim>\<open>let cart = JSON.parse(localStorage.getItem('cart')) || [];\<close>\<close>

definition initCart :: "(string \<Rightarrow> stored option) \<Rightarrow> error + json" where
  "initCart store =
     (case JSON_parse (store ''cart'') of
        Inl e \<Rightarrow> Inl e
      | Inr v \<Rightarrow> Inr (if json_truthy v then v else JsonArray []))"

subsection \<open>Toast\<close>

text \<open>
  \<open>showToast(message, duration = 2500)\<close>: the element is created on first use, the
  message and the visible style are set, and a timeout is queued. Of the styles only
  \<open>display\<close> and \<open>opacity\<close> are kept, and the document is taken to have a body to
  append the new element to. Durations are in milliseconds.
\<close>

definition showToast :: "message \<Rightarrow> nat \<Rightarrow> page \<Rightarrow> page" where
  "showToast message duration s =
     (let el = (case toast s of
                  None \<Rightarrow> \<lparr>toast_text = Message [], toast_display = [], toast_opacity = ''0''\<rparr>
                | Some t \<Rightarrow> t)
      in s\<lparr>toast := Some (el\<lparr>toast_text := message, toast_display := ''block'',
                               toast_opacity := ''1''\<rparr>),
           timers := timers s @ [(now s + duration, FadeOut)]\<rparr>)"

text \<open>
  The two callbacks of \<open>showToast\<close>: the outer one fades the toast out and queues the
  inner one, which takes the toast out of the flow 220 ms later.
\<close>

fun fire :: "callback \<Rightarrow> page \<Rightarrow> page" where
  "fire FadeOut s =
     s\<lparr>toast := map_option (\<lambda>el. el\<lparr>toast_opacity := ''0''\<rparr>) (toast s),
       timers := timers s @ [(now s + 220, HideToast)]\<rparr>"
| "fire HideToast s =
     s\<lparr>toast := map_option (\<lambda>el. el\<lparr>toast_display := ''none''\<rparr>) (toast s)\<rparr>"

text \<open>
  The event loop between two calls of the script: pending timeouts fire in the order
  of their due times, the earlier queued first among equals, each at its due time.
\<close>

fun earliest :: "(nat \<times> callback) list \<Rightarrow> (nat \<times> callback) option" where
  "earliest [] = None"
| "earliest (x # xs) =
     (case earliest xs of
        None \<Rightarrow> Some x
      | Some y \<Rightarrow> if fst y < fst x then Some y else Some x)"

fun weight :: "nat \<times> callback \<Rightarrow> nat" where
  "weight (d, FadeOut) = 2"
| "weight (d, HideToast) = 1"

lemma earliest_mem: "earliest xs = Some x \<Longrightarrow> x \<in> set xs"
  by (induction xs arbitrary: x) (auto split: option.splits if_splits)

lemma weight_remove1:
  "x \<in> set xs \<Longrightarrow> sum_list (map weight (remove1 x xs)) + weight x = sum_list (map weight xs)"
  by (induction xs) auto

lemma weight_fire:
  "sum_list (map weight (timers (fire cb s))) + 1
     = sum_list (map weight (timers s)) + weight (d, cb)"
  by (cases cb) auto

function run_until :: "nat \<Rightarrow> page \<Rightarrow> page" where
  "run_until t s =
     (case earliest (timers s) of
        None \<Rightarrow> s\<lparr>now := max (now s) t\<rparr>
      | Some (d, cb) \<Rightarrow>
          if t < d then s\<lparr>now := max (now s) t\<rparr>
          else run_until t (fire cb (s\<lparr>timers := remove1 (d, cb) (timers s),
                                        now := max (now s) d\<rparr>)))"
  by pat_completeness auto
termination
proof (relation "measure (\<lambda>(t, s). sum_list (map weight (timers s)))", goal_cases)
  case 1
  show ?case by simp
next
  case (2 t s x d cb)
  then have mem: "(d, cb) \<in> set (timers s)"
    by (simp add: earliest_mem)
  let ?s = "s\<lparr>timers := remove1 (d, cb) (timers s), now := max (now s) d\<rparr>"
  have "sum_list (map weight (timers (fire cb ?s))) + 1
          = sum_list (map weight (timers ?s)) + weight (d, cb)"
    by (rule weight_fire)
  also have "\<dots> = sum_list (map weight (timers s))"
    using weight_remove1 [OF mem] by simp
  finally show ?case by simp
qed

declare run_until.simps [simp del]

subsection \<open>Cart Manager\<close>

definition has_id :: "jsval \<Rightarrow> line \<Rightarrow> bool" where
  "has_id productId item = strict_eq (item_id item) productId"

text \<open>
  \<open>find\<close> returns the first matching object and the caller assigns to one of its
  properties: the first matching element of the array changes.
\<close>

fun update_first :: "('a \<Rightarrow> bool) \<Rightarrow> ('a \<Rightarrow> 'a) \<Rightarrow> 'a list \<Rightarrow> 'a list" where
  "update_first P f [] = []"
| "update_first P f (x # xs) = (if P x then f x # xs else x # update_first P f xs)"

text \<open>\<open>findIndex\<close> followed by \<open>splice(index, 1)\<close> when the index is not \<open>-1\<close>.\<close>

fun remove_first :: "('a \<Rightarrow> bool) \<Rightarrow> 'a list \<Rightarrow> 'a list" where
  "remove_first P [] = []"
| "remove_first P (x # xs) = (if P x then xs else x # remove_first P xs)"

text \<open>\<^verbatim>\<open>cart.reduce((sum, item) => sum + item.quantity, 0)\<close>\<close>

definition totalItems :: "line list \<Rightarrow> jsval" where
  "totalItems c = foldl (\<lambda>sum item. js_add sum (item_quantity item)) (JNum (Fin 0)) c"

text \<open>
  \<^verbatim>\<open>cart.reduce((total, item) => total + (item.price * item.quantity), 0)\<close>;
  \<open>calculateTotal\<close> returns the value together with the page it leaves behind.
\<close>

definition calculateTotal :: "page \<Rightarrow> jsval \<times> page" where
  "calculateTotal s =
     (foldl (\<lambda>total item. js_add total (js_mul (item_price item) (item_quantity item)))
        (JNum (Fin 0)) (cart s), s)"

definition updateCartCount :: "page \<Rightarrow> page" where
  "updateCartCount s =
     (case cart_count s of
        None \<Rightarrow> s
      | Some cartBadge \<Rightarrow>
          s\<lparr>cart_count := Some (cartBadge\<lparr>badge_text := totalItems (cart s),
                badge_display := (if js_gt (totalItems (cart s)) (JNum (Fin 0))
                                  then ''block'' else ''none'')\<rparr>)\<rparr>)"

text \<open>
  \<open>displayCart\<close> assigns to \<open>innerHTML\<close> of the elements it looks up without checking
  that they exist, which raises \<open>TypeError\<close> on a page without them. With an empty cart
  it returns before the footer is touched.
\<close>

definition displayCart :: "page \<Rightarrow> outcome \<times> page" where
  "displayCart s =
     (case cart_items s of
        None \<Rightarrow> (Threw TypeError, s)
      | Some cartContainer \<Rightarrow>
          if cart s = [] then (Returned, s\<lparr>cart_items := Some EmptyCartMarkup\<rparr>)
          else
            let s1 = s\<lparr>cart_items := Some (CartRowsMarkup (cart s))\<rparr>;
                (total, s2) = calculateTotal s1
            in case cart_total s2 of
                 None \<Rightarrow> (Threw TypeError, s2)
               | Some el \<Rightarrow> (Returned, s2\<lparr>cart_total := Some (CartTotalMarkup total)\<rparr>))"

text \<open>The tail shared by the three operations that re-render: \<open>displayCart(); updateCartCount();\<close>\<close>

definition refresh :: "page \<Rightarrow> outcome \<times> page" where
  "refresh s =
     (case displayCart s of
        (Returned, s1) \<Rightarrow> (Returned, updateCartCount s1)
      | (Threw e, s1) \<Rightarrow> (Threw e, s1))"

definition addToCart :: "jsval \<Rightarrow> jsval \<Rightarrow> jsval \<Rightarrow> page \<Rightarrow> outcome \<times> page" where
  "addToCart productName price productId s =
     (let s0 = s\<lparr>console := console s @ [LogAddToCart productName price productId]\<rparr>;
          product = \<lparr>item_id = productId, item_name = productName, item_price = price,
                     item_quantity = JNum (Fin 1)\<rparr>;
          existingProduct = find (has_id productId) (cart s0);
          s1 = (case existingProduct of
                  Some p \<Rightarrow>
                    s0\<lparr>cart := update_first (has_id productId)
                                 (\<lambda>p. p\<lparr>item_quantity := js_add (item_quantity p) (JNum (Fin 1))\<rparr>)
                                 (cart s0)\<rparr>
                | None \<Rightarrow> s0\<lparr>cart := cart s0 @ [product]\<rparr>);
          s2 = setItem ''cart'' (JSON_stringify (cart s1)) s1;
          s3 = showToast (AddedMessage productName (totalItems (cart s2))) 2500 s2
      in (Returned, updateCartCount s3))"

definition removeFromCart :: "jsval \<Rightarrow> page \<Rightarrow> outcome \<times> page" where
  "removeFromCart productId s =
     (let s1 = s\<lparr>cart := remove_first (has_id productId) (cart s)\<rparr>;
          s2 = setItem ''cart'' (JSON_stringify (cart s1)) s1
      in refresh s2)"

definition updateQuantity :: "jsval \<Rightarrow> jsval \<Rightarrow> page \<Rightarrow> outcome \<times> page" where
  "updateQuantity productId newQuantity s =
     (case find (has_id productId) (cart s) of
        None \<Rightarrow> (Returned, s)
      | Some product \<Rightarrow>
          if js_le newQuantity (JNum (Fin 0)) then removeFromCart productId s
          else
            let s1 = s\<lparr>cart := update_first (has_id productId)
                                (\<lambda>p. p\<lparr>item_quantity := newQuantity\<rparr>) (cart s)\<rparr>;
                s2 = setItem ''cart'' (JSON_stringify (cart s1)) s1
            in refresh s2)"

text \<open>\<open>clearCart\<close>; \<open>confirmed\<close> is the answer the user gives to the \<open>confirm\<close> prompt.\<close>

definition clearCart :: "bool \<Rightarrow> page \<Rightarrow> outcome \<times> page" where
  "clearCart confirmed s =
     (if confirmed then
        let s1 = s\<lparr>cart := []\<rparr>;
            s2 = setItem ''cart'' (JSON_stringify (cart s1)) s1
        in refresh s2
      else (Returned, s\<lparr>console := console s @ [LogClearCancelled]\<rparr>))"

text \<open>A call of one of the four mutating operations, and a run of such calls.\<close>

datatype operation =
    AddToCart jsval jsval jsval
  | RemoveFromCart jsval
  | UpdateQuantity jsval jsval
  | ClearCart bool

fun perform :: "operation \<Rightarrow> page \<Rightarrow> outcome \<times> page" where
  "perform (AddToCart productName price productId) s = addToCart productName price productId s"
| "perform (RemoveFromCart productId) s = removeFromCart productId s"
| "perform (UpdateQuantity productId newQuantity) s = updateQuantity productId newQuantity s"
| "perform (ClearCart confirmed) s = clearCart confirmed s"

text \<open>
  Each call is its own event handler: one that throws leaves the page as it was at the
  throw, and the next call starts from there.
\<close>

fun perform_all :: "operation list \<Rightarrow> page \<Rightarrow> page" where
  "perform_all [] s = s"
| "perform_all (x # xs) s = perform_all xs (snd (perform x s))"

section \<open>Search and filter\<close>

text \<open>
  \<open>parseInt(text)\<close> without a radix: leading white space is skipped, a sign is read, the
  prefix \<open>0x\<close> selects radix 16, and the longest run of digits is the value; no digit at
  all gives \<open>NaN\<close>.
\<close>

definition parse_digits :: "string \<Rightarrow> jsnum" where
  "parse_digits r =
     (let hex = (case r of
                   z # x # t \<Rightarrow> z = CHR ''0'' \<and> (x = CHR ''x'' \<or> x = CHR ''X'')
                 | _ \<Rightarrow> False);
          radix = (if hex then 16 else 10);
          ds = takeWhile (is_digit radix) (if hex then drop 2 r else r)
      in if ds = [] then NaN else Fin (of_int (digits_value radix ds)))"

definition parseInt :: "string \<Rightarrow> jsnum" where
  "parseInt s =
     (case trim_start s of
        [] \<Rightarrow> NaN
      | c # r \<Rightarrow>
          if c = CHR ''-'' then num_neg (parse_digits r)
          else if c = CHR ''+'' then parse_digits r
          else parse_digits (c # r))"

text \<open>\<open>toLowerCase\<close> and \<open>includes\<close> on byte strings; only the ASCII letters change case.\<close>

definition toLowerCase :: "string \<Rightarrow> string" where
  "toLowerCase s =
     map (\<lambda>c. let n = (of_char c :: nat) in if 65 \<le> n \<and> n \<le> 90 then char_of (n + 32) else c) s"

fun includes_str :: "string \<Rightarrow> string \<Rightarrow> bool" where
  "includes_str [] t = (t = [])"
| "includes_str (c # s) t = (take (length t) (c # s) = t \<or> includes_str s t)"

text \<open>
  A product card: its two data attributes (\<open>None\<close> when the attribute is missing, for
  which \<open>getAttribute\<close> gives \<open>null\<close>) and whether its class list holds \<open>hidden\<close>.
\<close>

record card =
  data_name :: "string option"
  data_price :: "string option"
  hidden :: bool

text \<open>\<^verbatim>\<open>parseInt(...value) || 0\<close> and \<^verbatim>\<open>parseInt(...value) || Infinity\<close>\<close>

definition minPrice :: "string \<Rightarrow> jsnum" where
  "minPrice text = (if truthy (JNum (parseInt text)) then parseInt text else Fin 0)"

definition maxPrice :: "string \<Rightarrow> jsnum" where
  "maxPrice text = (if truthy (JNum (parseInt text)) then parseInt text else PosInf)"

definition productPrice :: "card \<Rightarrow> jsnum" where
  "productPrice c = parseInt (ToString (case data_price c of None \<Rightarrow> JNull | Some p \<Rightarrow> JStr p))"

definition matchesSearch :: "string \<Rightarrow> string \<Rightarrow> bool" where
  "matchesSearch productName searchTerm = (includes_str productName searchTerm \<or> searchTerm = [])"

definition matchesPrice :: "jsnum \<Rightarrow> jsnum \<Rightarrow> jsnum \<Rightarrow> bool" where
  "matchesPrice price lo hi = (num_le lo price \<and> num_le price hi)"

text \<open>
  The body of the \<open>forEach\<close>: a card without \<open>data-name\<close> raises \<open>TypeError\<close> at
  \<open>toLowerCase\<close>; otherwise the class \<open>hidden\<close> is removed or added.
\<close>

definition showOrHide :: "string \<Rightarrow> jsnum \<Rightarrow> jsnum \<Rightarrow> card \<Rightarrow> error + card" where
  "showOrHide searchTerm lo hi c =
     (case data_name c of
        None \<Rightarrow> Inl TypeError
      | Some n \<Rightarrow>
          Inr (if matchesSearch (toLowerCase n) searchTerm \<and> matchesPrice (productPrice c) lo hi
               then c\<lparr>hidden := False\<rparr> else c\<lparr>hidden := True\<rparr>))"

text \<open>\<open>forEach\<close>: a throw ends the loop with the earlier cards already updated.\<close>

fun forEach :: "(card \<Rightarrow> error + card) \<Rightarrow> card list \<Rightarrow> outcome \<times> card list" where
  "forEach f [] = (Returned, [])"
| "forEach f (c # cs) =
     (case f c of
        Inl e \<Rightarrow> (Threw e, c # cs)
      | Inr c' \<Rightarrow> (case forEach f cs of (r, cs') \<Rightarrow> (r, c' # cs')))"

text \<open>
  \<open>filterProducts\<close>, given the values of the three inputs \<open>searchInput\<close>, \<open>minPrice\<close>
  and \<open>maxPrice\<close> and the cards of the page. The line it writes to the console at the
  end is left out.
\<close>

definition filterProducts :: "string \<Rightarrow> string \<Rightarrow> string \<Rightarrow> card list \<Rightarrow> outcome \<times> card list" where
  "filterProducts searchInput minText maxText productCards =
     forEach (showOrHide (toLowerCase searchInput) (minPrice minText) (maxPrice maxText))
       productCards"

text \<open>
  Text that \<open>parseInt\<close> cannot start reading: after the white space and an optional sign
  there is no digit.
\<close>

definition non_numeric :: "string \<Rightarrow> bool" where
  "non_numeric text =
     (case trim_start text of
        [] \<Rightarrow> True
      | c # r \<Rightarrow>
          if c = CHR ''-'' \<or> c = CHR ''+'' then (case r of [] \<Rightarrow> True | d # t \<Rightarrow> \<not> is_digit 10 d)
          else \<not> is_digit 10 c)"

section \<open>Example pages\<close>

text \<open>The cart page with nothing stored and an empty cart.\<close>

definition empty_page :: page where
  "empty_page =
     \<lparr>cart = [], localStorage = Map.empty, setItem_calls = [], console = [],
      cart_items = Some StaticMarkup, cart_total = Some StaticMarkup,
      cart_count = Some \<lparr>badge_text = JStr [], badge_display = []\<rparr>,
      toast = None, now = 0, timers = []\<rparr>"

definition m3 :: line where
  "m3 = \<lparr>item_id = JNum (Fin 1), item_name = JStr ''BMW M3'', item_price = JNum (Fin 89900),
         item_quantity = JNum (Fin 1)\<rparr>"

definition m4 :: line where
  "m4 = \<lparr>item_id = JNum (Fin 2), item_name = JStr ''BMW M4'', item_price = JNum (Fin 95900),
         item_quantity = JNum (Fin 3)\<rparr>"

text \<open>The cart page showing one line, and showing two, with the store in step.\<close>

definition one_line_page :: page where
  "one_line_page =
     empty_page\<lparr>cart := [m3], localStorage := [''cart'' \<mapsto> JSON_stringify [m3]],
       cart_items := Some (CartRowsMarkup [m3])\<rparr>"

definition two_line_page :: page where
  "two_line_page =
     empty_page\<lparr>cart := [m3, m4], localStorage := [''cart'' \<mapsto> JSON_stringify [m3, m4]],
       cart_items := Some (CartRowsMarkup [m3, m4])\<rparr>"

text \<open>The three cards of the shop page.\<close>

definition shop_cards :: "card list" where
  "shop_cards =
     [\<lparr>data_name = Some ''BMW M3'', data_price = Some ''89900'', hidden = False\<rparr>,
      \<lparr>data_name = Some ''BMW M4'', data_price = Some ''95900'', hidden = False\<rparr>,
      \<lparr>data_name = Some ''BMW M5'', data_price = Some ''120900'', hidden = False\<rparr>]"

section \<open>Numeric quantities\<close>

text \<open>
  \<open>number_above_zero\<close> says of a quantity that it is a number and not \<open><= 0\<close>, and
  \<open>number_argument\<close> says of a call that the new quantity it passes, if any, is a number
  rather than text.
\<close>

fun number_above_zero :: "jsval \<Rightarrow> bool" where
  "number_above_zero (JNum n) = (\<not> num_le n (Fin 0))"
| "number_above_zero v = False"

fun number_argument :: "operation \<Rightarrow> bool" where
  "number_argument (UpdateQuantity productId (JNum n)) = True"
| "number_argument (UpdateQuantity productId v) = False"
| "number_argument x = True"

section \<open>Properties\<close>

subsection \<open>What each operation does to the cart and to the store\<close>

lemma cart_refresh: "cart (snd (refresh s)) = cart s"
  by (simp add: refresh_def displayCart_def calculateTotal_def updateCartCount_def Let_def split: option.splits prod.splits outcome.splits)

lemma store_refresh: "localStorage (snd (refresh s)) = localStorage s"
  by (simp add: refresh_def displayCart_def calculateTotal_def updateCartCount_def Let_def split: option.splits prod.splits outcome.splits)

lemma calls_refresh: "setItem_calls (snd (refresh s)) = setItem_calls s"
  by (simp add: refresh_def displayCart_def calculateTotal_def updateCartCount_def Let_def split: option.splits prod.splits outcome.splits)

lemma cart_addToCart:
  "cart (snd (addToCart productName price productId s)) =
     (case find (has_id productId) (cart s) of
        Some p \<Rightarrow> update_first (has_id productId)
                    (\<lambda>p. p\<lparr>item_quantity := js_add (item_quantity p) (JNum (Fin 1))\<rparr>) (cart s)
      | None \<Rightarrow> cart s @ [\<lparr>item_id = productId, item_name = productName, item_price = price,
                             item_quantity = JNum (Fin 1)\<rparr>])"
  by (simp add: addToCart_def Let_def setItem_def showToast_def updateCartCount_def
      split: option.splits)

lemma store_addToCart:
  "localStorage (snd (addToCart productName price productId s)) ''cart''
     = Some (JSON_stringify (cart (snd (addToCart productName price productId s))))"
  by (simp add: addToCart_def Let_def setItem_def showToast_def updateCartCount_def
      split: option.splits)

lemma cart_removeFromCart:
  "cart (snd (removeFromCart productId s)) = remove_first (has_id productId) (cart s)"
  by (simp add: removeFromCart_def Let_def cart_refresh setItem_def)

lemma store_removeFromCart:
  "localStorage (snd (removeFromCart productId s)) ''cart''
     = Some (JSON_stringify (cart (snd (removeFromCart productId s))))"
  by (simp add: removeFromCart_def Let_def cart_refresh store_refresh setItem_def)

lemma cart_updateQuantity:
  "cart (snd (updateQuantity productId newQuantity s)) =
     (case find (has_id productId) (cart s) of
        None \<Rightarrow> cart s
      | Some p \<Rightarrow>
          if js_le newQuantity (JNum (Fin 0)) then remove_first (has_id productId) (cart s)
          else update_first (has_id productId) (\<lambda>p. p\<lparr>item_quantity := newQuantity\<rparr>) (cart s))"
  by (simp add: updateQuantity_def Let_def cart_refresh cart_removeFromCart setItem_def
      split: option.splits)

lemma store_updateQuantity:
  "find (has_id productId) (cart s) \<noteq> None \<Longrightarrow>
   localStorage (snd (updateQuantity productId newQuantity s)) ''cart''
     = Some (JSON_stringify (cart (snd (updateQuantity productId newQuantity s))))"
  by (auto simp add: updateQuantity_def Let_def cart_refresh store_refresh store_removeFromCart setItem_def
      split: option.splits)

lemma cart_clearCart: "cart (snd (clearCart confirmed s)) = (if confirmed then [] else cart s)"
  by (simp add: clearCart_def Let_def cart_refresh setItem_def)

lemma store_clearCart:
  "localStorage (snd (clearCart True s)) ''cart'' = Some (JSON_stringify [])"
  by (simp add: clearCart_def Let_def store_refresh setItem_def)

subsection \<open>The store mirrors the cart\<close>

text \<open>
  C1. After \<open>addToCart\<close>, after \<open>removeFromCart\<close>, after \<open>updateQuantity\<close> with an id
  that is in the cart, and after a confirmed \<open>clearCart\<close>, the value stored under the key
  \<open>cart\<close> is the serialization of the cart in memory. This holds at the end of the call
  whether it returned or raised in \<open>displayCart\<close>, since the write comes first.
\<close>

theorem store_mirrors_cart:
  "localStorage (snd (addToCart productName price productId s)) ''cart''
     = Some (JSON_stringify (cart (snd (addToCart productName price productId s))))
   \<and> localStorage (snd (removeFromCart productId s)) ''cart''
     = Some (JSON_stringify (cart (snd (removeFromCart productId s))))
   \<and> (find (has_id productId) (cart s) \<noteq> None \<longrightarrow>
        localStorage (snd (updateQuantity productId newQuantity s)) ''cart''
          = Some (JSON_stringify (cart (snd (updateQuantity productId newQuantity s)))))
   \<and> localStorage (snd (clearCart True s)) ''cart''
     = Some (JSON_stringify (cart (snd (clearCart True s))))"
  using store_addToCart store_removeFromCart store_updateQuantity store_clearCart
  by (simp add: cart_clearCart)

theorem store_mirrors_cart_witness:
  "find (has_id (JNum (Fin 1))) (cart one_line_page) \<noteq> None
   \<and> localStorage (snd (updateQuantity (JNum (Fin 1)) (JNum (Fin 3)) one_line_page)) ''cart''
       = Some (JSON_stringify [m3\<lparr>item_quantity := JNum (Fin 3)\<rparr>])"
proof -
  have h: "find (has_id (JNum (Fin 1))) (cart one_line_page) \<noteq> None"
    by (simp add: one_line_page_def empty_page_def m3_def has_id_def strict_eq_def)
  have c: "cart (snd (updateQuantity (JNum (Fin 1)) (JNum (Fin 3)) one_line_page))
             = [m3\<lparr>item_quantity := JNum (Fin 3)\<rparr>]"
    by (simp add: cart_updateQuantity one_line_page_def empty_page_def m3_def has_id_def
        strict_eq_def)
  from h c store_mirrors_cart [of "JStr []" "JNull" "JNum (Fin 1)" one_line_page "JNum (Fin 3)"]
  show ?thesis by simp
qed

subsection \<open>Adding to the cart\<close>





subsection \<open>The total\<close>



subsection \<open>Fields an existing line keeps\<close>

lemma map_update_first_quantity:
  "map item_id (update_first P (\<lambda>p. p\<lparr>item_quantity := g p\<rparr>) xs) = map item_id xs
   \<and> map item_name (update_first P (\<lambda>p. p\<lparr>item_quantity := g p\<rparr>) xs) = map item_name xs
   \<and> map item_price (update_first P (\<lambda>p. p\<lparr>item_quantity := g p\<rparr>) xs) = map item_price xs"
  by (induction xs) auto

text \<open>
  C9. When the cart holds a line with the id passed to \<open>addToCart\<close>, the call leaves the
  ids, names and prices of all lines as they were and adds no line, whatever name and
  price it is given: only a quantity changes. The name and the price passed are stored
  only in the line that is appended when no line has the id.
\<close>

theorem addToCart_keeps_name_and_price:
  "(find (has_id productId) (cart s) \<noteq> None \<longrightarrow>
      map item_name (cart (snd (addToCart name2 price2 productId s))) = map item_name (cart s)
      \<and> map item_price (cart (snd (addToCart name2 price2 productId s))) = map item_price (cart s)
      \<and> map item_id (cart (snd (addToCart name2 price2 productId s))) = map item_id (cart s))
   \<and> (find (has_id productId) (cart s) = None \<longrightarrow>
      butlast (cart (snd (addToCart name2 price2 productId s))) = cart s
      \<and> item_name (last (cart (snd (addToCart name2 price2 productId s)))) = name2
      \<and> item_price (last (cart (snd (addToCart name2 price2 productId s)))) = price2)"
  by (auto simp add: cart_addToCart map_update_first_quantity)

theorem addToCart_keeps_name_and_price_witness:
  "find (has_id (JNum (Fin 1))) (cart one_line_page) \<noteq> None
   \<and> map item_name (cart (snd (addToCart (JStr ''BMW X5'') (JNum (Fin 1)) (JNum (Fin 1))
        one_line_page))) = [JStr ''BMW M3'']
   \<and> map item_price (cart (snd (addToCart (JStr ''BMW X5'') (JNum (Fin 1)) (JNum (Fin 1))
        one_line_page))) = [JNum (Fin 89900)]
   \<and> find (has_id (JNum (Fin 7))) (cart one_line_page) = None
   \<and> item_name (last (cart (snd (addToCart (JStr ''BMW X5'') (JNum (Fin 1)) (JNum (Fin 7))
        one_line_page)))) = JStr ''BMW X5''"
proof -
  have h1: "find (has_id (JNum (Fin 1))) (cart one_line_page) \<noteq> None"
    by (simp add: one_line_page_def empty_page_def m3_def has_id_def strict_eq_def)
  have h2: "find (has_id (JNum (Fin 7))) (cart one_line_page) = None"
    by (simp add: one_line_page_def empty_page_def m3_def has_id_def strict_eq_def)
  have c: "cart one_line_page = [m3]"
    by (simp add: one_line_page_def empty_page_def)
  from h1 h2
    addToCart_keeps_name_and_price [of "JNum (Fin 1)" one_line_page "JStr ''BMW X5''" "JNum (Fin 1)"]
    addToCart_keeps_name_and_price [of "JNum (Fin 7)" one_line_page "JStr ''BMW X5''" "JNum (Fin 1)"]
  show ?thesis by (simp add: c m3_def)
qed

subsection \<open>Clearing the cart\<close>

text \<open>
  C7. \<open>clearCart()\<close> with the prompt declined returns with the cart as it was, issues no
  \<open>setItem\<close> (the store and the list of writes are unchanged) and renders nothing: the
  cart rows, the footer and the badge are unchanged, and only the console gets a line.
  With the prompt confirmed the cart is empty and the serialization of the empty cart is
  written under \<open>cart\<close>, in one \<open>setItem\<close> call. On the page showing two lines, a
  declined \<open>clearCart()\<close> leaves both lines and writes nothing.
\<close>

theorem clearCart_declined_or_confirmed:
  "clearCart False s = (Returned, s\<lparr>console := console s @ [LogClearCancelled]\<rparr>)
   \<and> cart (snd (clearCart False s)) = cart s
   \<and> localStorage (snd (clearCart False s)) = localStorage s
   \<and> setItem_calls (snd (clearCart False s)) = setItem_calls s
   \<and> cart_items (snd (clearCart False s)) = cart_items s
   \<and> cart_total (snd (clearCart False s)) = cart_total s
   \<and> cart_count (snd (clearCart False s)) = cart_count s
   \<and> cart (snd (clearCart True s)) = []
   \<and> localStorage (snd (clearCart True s)) ''cart'' = Some (JSON_stringify [])
   \<and> setItem_calls (snd (clearCart True s)) = setItem_calls s @ [(''cart'', JSON_stringify [])]
   \<and> cart (snd (clearCart False two_line_page)) = [m3, m4]
   \<and> setItem_calls (snd (clearCart False two_line_page)) = []"
  by (simp add: clearCart_def Let_def cart_refresh store_refresh calls_refresh setItem_def
      two_line_page_def empty_page_def)

subsection \<open>Changing a quantity\<close>

lemma text_5: "StringToNumber ''5'' = Fin 5"
  by code_simp

lemma text_5_plus_1: "js_add (JStr ''5'') (JNum (Fin 1)) = JStr ''51''"
  by code_simp




text \<open>
  C4. \<open>updateQuantity(productId, newQuantity)\<close> leaves the cart alone when no line has
  the id and removes the line when \<open>newQuantity <= 0\<close> (lemma \<open>cart_updateQuantity\<close>).
  Otherwise it assigns \<open>newQuantity\<close> as passed, without converting it to a number.
  The quantity box of the cart page passes text: on the page showing one line,
  \<open>updateQuantity(1, "5")\<close> returns with the quantity of the line the text \<open>"5"\<close>, which
  is not the number 5, and a following \<open>addToCart\<close> of the same product turns it into
  the text \<open>"51"\<close>.
\<close>

theorem updateQuantity_stores_text_as_is:
  "fst (updateQuantity (JNum (Fin 1)) (JStr ''5'') one_line_page) = Returned
   \<and> cart (snd (updateQuantity (JNum (Fin 1)) (JStr ''5'') one_line_page))
       = [m3\<lparr>item_quantity := JStr ''5''\<rparr>]
   \<and> JStr ''5'' \<noteq> JNum (ToNumber (JStr ''5''))
   \<and> cart (snd (addToCart (JStr ''BMW M3'') (JNum (Fin 89900)) (JNum (Fin 1))
        (snd (updateQuantity (JNum (Fin 1)) (JStr ''5'') one_line_page))))
       = [m3\<lparr>item_quantity := JStr ''51''\<rparr>]"
proof -
  have c: "cart (snd (updateQuantity (JNum (Fin 1)) (JStr ''5'') one_line_page))
             = [m3\<lparr>item_quantity := JStr ''5''\<rparr>]"
    by (simp add: cart_updateQuantity one_line_page_def empty_page_def m3_def has_id_def
        strict_eq_def text_5)
  have r: "fst (updateQuantity (JNum (Fin 1)) (JStr ''5'') one_line_page) = Returned"
    by (simp add: updateQuantity_def refresh_def displayCart_def calculateTotal_def Let_def
        setItem_def one_line_page_def empty_page_def m3_def has_id_def strict_eq_def text_5)
  have a: "cart (snd (addToCart (JStr ''BMW M3'') (JNum (Fin 89900)) (JNum (Fin 1))
        (snd (updateQuantity (JNum (Fin 1)) (JStr ''5'') one_line_page))))
       = [m3\<lparr>item_quantity := JStr ''51''\<rparr>]"
    by (simp add: cart_addToCart c m3_def has_id_def strict_eq_def text_5_plus_1)
  from c r a show ?thesis by simp
qed


subsection \<open>Quantities stay above zero when the arguments are numbers\<close>

lemma above_zero_plus_one: "number_above_zero v \<Longrightarrow> number_above_zero (js_add v (JNum (Fin 1)))"
proof (cases v)
  case (JNum n)
  assume "number_above_zero v"
  with JNum show ?thesis by (cases n) (simp_all add: js_add_def)
qed simp_all

lemma above_zero_update_first:
  "list_all (\<lambda>l. number_above_zero (item_quantity l)) xs \<Longrightarrow>
   (\<And>l. number_above_zero (item_quantity l) \<Longrightarrow> number_above_zero (item_quantity (f l))) \<Longrightarrow>
   list_all (\<lambda>l. number_above_zero (item_quantity l)) (update_first P f xs)"
  by (induction xs) auto

lemma above_zero_remove_first:
  "list_all (\<lambda>l. number_above_zero (item_quantity l)) xs \<Longrightarrow>
   list_all (\<lambda>l. number_above_zero (item_quantity l)) (remove_first P xs)"
  by (induction xs) auto

lemma above_zero_perform:
  assumes "number_argument x" and "list_all (\<lambda>l. number_above_zero (item_quantity l)) (cart s)"
  shows "list_all (\<lambda>l. number_above_zero (item_quantity l)) (cart (snd (perform x s)))"
proof (cases x)
  case (AddToCart productName price productId)
  with assms(2) show ?thesis
    by (auto simp add: cart_addToCart above_zero_plus_one split: option.splits
        intro!: above_zero_update_first)
next
  case (RemoveFromCart productId)
  with assms(2) show ?thesis
    by (simp add: cart_removeFromCart above_zero_remove_first)
next
  case (UpdateQuantity productId v)
  with assms(1) obtain n where v: "v = JNum n"
    by (cases v) auto
  with UpdateQuantity assms(2) show ?thesis
    by (auto simp add: cart_updateQuantity above_zero_remove_first split: option.splits
        intro!: above_zero_update_first)
next
  case (ClearCart confirmed)
  with assms(2) show ?thesis
    by (simp add: cart_clearCart)
qed

text \<open>
  When every new quantity passed is a number, a cart whose quantities are numbers that
  are not \<open><= 0\<close> stays such a cart through any run of calls; the empty cart is one.
\<close>

lemma above_zero_perform_all:
  "list_all number_argument xs \<Longrightarrow>
   list_all (\<lambda>l. number_above_zero (item_quantity l)) (cart s) \<Longrightarrow>
   list_all (\<lambda>l. number_above_zero (item_quantity l)) (cart (perform_all xs s))"
  by (induction xs arbitrary: s) (auto simp add: above_zero_perform)

subsection \<open>Start-up\<close>

text \<open>
  C2, as stated: with unparseable text stored under \<open>cart\<close>, start-up does not give the
  empty cart; \<open>JSON.parse\<close> raises \<open>SyntaxError\<close> and nothing catches it.
\<close>

theorem initCart_unparseable_raises:
  "initCart [''cart'' \<mapsto> Unparseable] = Inl SyntaxError
   \<and> initCart [''cart'' \<mapsto> Unparseable] \<noteq> Inr (JsonArray [])"
  by (simp add: initCart_def)

text \<open>
  C2, amended. With nothing stored under \<open>cart\<close> the cart starts as the empty array and
  nothing is raised; with unparseable text stored there, the \<open>SyntaxError\<close> of
  \<open>JSON.parse\<close> leaves the initialization.
\<close>

theorem initCart_absent_or_unparseable:
  "(store ''cart'' = None \<longrightarrow> initCart store = Inr (JsonArray []))
   \<and> (store ''cart'' = Some Unparseable \<longrightarrow> initCart store = Inl SyntaxError)"
  by (simp add: initCart_def)

theorem initCart_absent_or_unparseable_witness:
  "(Map.empty :: string \<Rightarrow> stored option) ''cart'' = None
   \<and> initCart Map.empty = Inr (JsonArray [])
   \<and> [''cart'' \<mapsto> Unparseable] ''cart'' = Some Unparseable
   \<and> initCart [''cart'' \<mapsto> Unparseable] = Inl SyntaxError"
  using initCart_absent_or_unparseable [of Map.empty]
    initCart_absent_or_unparseable [of "[''cart'' \<mapsto> Unparseable]"]
  by simp

subsection \<open>Price bounds of the filter\<close>

lemma parse_digits_no_digit:
  "(case r of [] \<Rightarrow> True | d # t \<Rightarrow> \<not> is_digit 10 d) \<Longrightarrow> parse_digits r = NaN"
proof (cases r)
  case Nil
  then show ?thesis by (simp add: parse_digits_def)
next
  case (Cons d t)
  assume "case r of [] \<Rightarrow> True | d # t \<Rightarrow> \<not> is_digit 10 d"
  with Cons have nd: "\<not> is_digit 10 d" by simp
  then have "d \<noteq> CHR ''0''" by (auto simp add: is_digit_def digit_of_def)
  with Cons nd show ?thesis
    by (cases t) (simp_all add: parse_digits_def)
qed

lemma parseInt_non_numeric: "non_numeric text \<Longrightarrow> parseInt text = NaN"
  unfolding non_numeric_def parseInt_def
  by (cases "trim_start text") (auto simp add: parse_digits_no_digit split: if_splits list.splits)

lemma parseInt_empty: "parseInt [] = NaN"
  by (simp add: parseInt_def trim_start_def)

lemma parseInt_0: "parseInt ''0'' = Fin 0"
  by code_simp

lemma matchesPrice_unbounded: "matchesPrice p lo PosInf = num_le lo p"
  by (cases p; cases lo) (simp_all add: matchesPrice_def)

lemma forEach_all:
  "(\<And>c. c \<in> set cs \<Longrightarrow> f c = Inr (g c)) \<Longrightarrow> forEach f cs = (Returned, map g cs)"
  by (induction cs) auto

text \<open>
  C10. A maximum-price text that is empty or otherwise non-numeric, or that reads as 0,
  gives the upper bound \<open>Infinity\<close>, and a card is then shown exactly when it matches the
  search and its price is at least the minimum price: with \<open>0\<close> as maximum price and no
  search term, the cards at or above the minimum price stay visible. A minimum-price
  text that is empty or otherwise non-numeric gives the lower bound \<open>0\<close>.
\<close>

theorem filterProducts_price_bounds:
  "(non_numeric maxText \<or> parseInt maxText = Fin 0 \<longrightarrow>
      maxPrice maxText = PosInf
      \<and> (data_name c = Some n \<longrightarrow>
           showOrHide (toLowerCase searchInput) (minPrice minText) (maxPrice maxText) c
             = Inr (c\<lparr>hidden := \<not> (matchesSearch (toLowerCase n) (toLowerCase searchInput)
                                     \<and> num_le (minPrice minText) (productPrice c))\<rparr>)
           \<and> showOrHide (toLowerCase []) (minPrice minText) (maxPrice maxText) c
             = Inr (c\<lparr>hidden := \<not> num_le (minPrice minText) (productPrice c)\<rparr>)))
   \<and> (non_numeric minText \<longrightarrow> minPrice minText = Fin 0)
   \<and> non_numeric [] \<and> maxPrice [] = PosInf \<and> minPrice [] = Fin 0
   \<and> parseInt ''0'' = Fin 0 \<and> maxPrice ''0'' = PosInf
   \<and> filterProducts [] ''90000'' ''0'' shop_cards
       = (Returned,
          [\<lparr>data_name = Some ''BMW M3'', data_price = Some ''89900'', hidden = True\<rparr>,
           \<lparr>data_name = Some ''BMW M4'', data_price = Some ''95900'', hidden = False\<rparr>,
           \<lparr>data_name = Some ''BMW M5'', data_price = Some ''120900'', hidden = False\<rparr>])"
proof (intro conjI impI)
  assume h: "non_numeric maxText \<or> parseInt maxText = Fin 0"
  then show m: "maxPrice maxText = PosInf"
    by (auto simp add: maxPrice_def parseInt_non_numeric)
  assume n: "data_name c = Some n"
  then show "showOrHide (toLowerCase searchInput) (minPrice minText) (maxPrice maxText) c
             = Inr (c\<lparr>hidden := \<not> (matchesSearch (toLowerCase n) (toLowerCase searchInput)
                                     \<and> num_le (minPrice minText) (productPrice c))\<rparr>)"
    by (simp add: showOrHide_def m matchesPrice_unbounded)
  from n show "showOrHide (toLowerCase []) (minPrice minText) (maxPrice maxText) c
             = Inr (c\<lparr>hidden := \<not> num_le (minPrice minText) (productPrice c)\<rparr>)"
    by (simp add: showOrHide_def m matchesPrice_unbounded matchesSearch_def toLowerCase_def)
next
  assume "non_numeric minText"
  then show "minPrice minText = Fin 0"
    by (simp add: minPrice_def parseInt_non_numeric)
next
  show "non_numeric []" by (simp add: non_numeric_def trim_start_def)
  show "maxPrice [] = PosInf" by (simp add: maxPrice_def parseInt_empty)
  show "minPrice [] = Fin 0" by (simp add: minPrice_def parseInt_empty)
  show "parseInt ''0'' = Fin 0" by (rule parseInt_0)
  show "maxPrice ''0'' = PosInf" by (simp add: maxPrice_def parseInt_0)
  show "filterProducts [] ''90000'' ''0'' shop_cards
       = (Returned,
          [\<lparr>data_name = Some ''BMW M3'', data_price = Some ''89900'', hidden = True\<rparr>,
           \<lparr>data_name = Some ''BMW M4'', data_price = Some ''95900'', hidden = False\<rparr>,
           \<lparr>data_name = Some ''BMW M5'', data_price = Some ''120900'', hidden = False\<rparr>])"
    by code_simp
qed

theorem filterProducts_price_bounds_witness:
  "(non_numeric ''abc'' \<or> parseInt ''abc'' = Fin 0)
   \<and> maxPrice ''abc'' = PosInf
   \<and> data_name (hd shop_cards) = Some ''BMW M3''
   \<and> showOrHide (toLowerCase ''M3'') (minPrice []) (maxPrice ''abc'') (hd shop_cards)
       = Inr (hd shop_cards)
   \<and> non_numeric []
   \<and> minPrice [] = Fin 0"
proof -
  have h1: "non_numeric ''abc'' \<or> parseInt ''abc'' = Fin 0" by code_simp
  have h2: "data_name (hd shop_cards) = Some ''BMW M3''" by (simp add: shop_cards_def)
  have h3: "non_numeric []" by (simp add: non_numeric_def trim_start_def)
  have e: "hd shop_cards\<lparr>hidden := \<not> (matchesSearch (toLowerCase ''BMW M3'') (toLowerCase ''M3'')
                                     \<and> num_le (minPrice []) (productPrice (hd shop_cards)))\<rparr>
           = hd shop_cards"
    by code_simp
  note t = filterProducts_price_bounds [of "''abc''" "hd shop_cards" "''BMW M3''" "''M3''" "[]"]
  from t h1 have m: "maxPrice ''abc'' = PosInf" by blast
  from t h1 h2 have
    "showOrHide (toLowerCase ''M3'') (minPrice []) (maxPrice ''abc'') (hd shop_cards)
       = Inr (hd shop_cards\<lparr>hidden := \<not> (matchesSearch (toLowerCase ''BMW M3'') (toLowerCase ''M3'')
                                     \<and> num_le (minPrice []) (productPrice (hd shop_cards)))\<rparr>)"
    by blast
  then have v: "showOrHide (toLowerCase ''M3'') (minPrice []) (maxPrice ''abc'') (hd shop_cards)
       = Inr (hd shop_cards)"
    by (simp only: e)
  from t h3 have z: "minPrice [] = Fin 0" by blast
  from h1 m h2 v h3 z show ?thesis by blast
qed

subsection \<open>A second toast while the first is showing\<close>

text \<open>
  C8, as stated: a toast shown at time 0 for 2500 ms and replaced at time 1000 by a second
  one, again for 2500 ms, is faded out at time 2500 and out of the flow at time 2720,
  with the second message in it, although the second call asked for it to stay until
  3500: the timeout of the first call is still queued and hides the second toast.
\<close>

theorem second_toast_cut_short:
  "toast (run_until 2500 (showToast (Message ''second'') 2500
            (run_until 1000 (showToast (Message ''first'') 2500 empty_page))))
     = Some \<lparr>toast_text = Message ''second'', toast_display = ''block'', toast_opacity = ''0''\<rparr>
   \<and> toast (run_until 2720 (showToast (Message ''second'') 2500
            (run_until 1000 (showToast (Message ''first'') 2500 empty_page))))
     = Some \<lparr>toast_text = Message ''second'', toast_display = ''none'', toast_opacity = ''0''\<rparr>"
  by (simp add: showToast_def empty_page_def run_until.simps)

text \<open>
  C8, amended. Let a toast be shown for \<open>d1\<close> ms on a page with no pending timeout, and
  let \<open>showToast(m2, d2)\<close> be called at a time \<open>t2\<close> when the first timeout has not yet
  fallen due, asking for a later end than the first call did. Right after the second
  call the toast shows \<open>m2\<close>, visible, and both timeouts are queued. When the first one
  falls due the toast is faded out, still holding \<open>m2\<close>, and 220 ms later it is out of
  the flow.
\<close>

theorem showToast_again_keeps_first_timeout:
  "timers s = [] \<and> now s \<le> t2 \<and> t2 < now s + d1 \<and> now s + d1 < t2 + d2 \<longrightarrow>
     map_option toast_text (toast (showToast m2 d2 (run_until t2 (showToast m1 d1 s)))) = Some m2
   \<and> map_option toast_display (toast (showToast m2 d2 (run_until t2 (showToast m1 d1 s))))
       = Some ''block''
   \<and> map_option toast_opacity (toast (showToast m2 d2 (run_until t2 (showToast m1 d1 s))))
       = Some ''1''
   \<and> timers (showToast m2 d2 (run_until t2 (showToast m1 d1 s)))
       = [(now s + d1, FadeOut), (t2 + d2, FadeOut)]
   \<and> map_option toast_text
        (toast (run_until (now s + d1) (showToast m2 d2 (run_until t2 (showToast m1 d1 s)))))
       = Some m2
   \<and> map_option toast_opacity
        (toast (run_until (now s + d1) (showToast m2 d2 (run_until t2 (showToast m1 d1 s)))))
       = Some ''0''
   \<and> map_option toast_display
        (toast (run_until (now s + d1 + 220) (showToast m2 d2 (run_until t2 (showToast m1 d1 s)))))
       = Some ''none''"
proof (intro impI)
  assume h: "timers s = [] \<and> now s \<le> t2 \<and> t2 < now s + d1 \<and> now s + d1 < t2 + d2"
  define s1 where "s1 = run_until t2 (showToast m1 d1 s)"
  have s1: "s1 = (showToast m1 d1 s)\<lparr>now := t2\<rparr>"
    using h by (simp add: s1_def showToast_def run_until.simps max_def)
  define s2 where "s2 = showToast m2 d2 s1"
  have tm: "timers s2 = [(now s + d1, FadeOut), (t2 + d2, FadeOut)]"
    using h by (simp add: s2_def s1 showToast_def)
  have n2: "now s2 = t2"
    by (simp add: s2_def s1 showToast_def)
  have to: "toast s2 = Some ((case toast s1 of None \<Rightarrow> \<lparr>toast_text = Message [], toast_display = [], toast_opacity = ''0''\<rparr> | Some t \<Rightarrow> t)
       \<lparr>toast_text := m2, toast_display := ''block'', toast_opacity := ''1''\<rparr>)"
    by (simp add: s2_def showToast_def Let_def)
  have a: "map_option toast_text (toast s2) = Some m2
     \<and> map_option toast_display (toast s2) = Some ''block''
     \<and> map_option toast_opacity (toast s2) = Some ''1''"
    by (simp add: to)
  have b: "map_option toast_text (toast (run_until (now s + d1) s2)) = Some m2
     \<and> map_option toast_opacity (toast (run_until (now s + d1) s2)) = Some ''0''"
    using h by (simp add: run_until.simps tm n2 to max_def)
  have c: "map_option toast_display (toast (run_until (now s + d1 + 220) s2)) = Some ''none''"
    using h by (simp add: run_until.simps tm n2 to max_def)
  from a tm b c show "map_option toast_text (toast (showToast m2 d2 (run_until t2 (showToast m1 d1 s)))) = Some m2
   \<and> map_option toast_display (toast (showToast m2 d2 (run_until t2 (showToast m1 d1 s))))
       = Some ''block''
   \<and> map_option toast_opacity (toast (showToast m2 d2 (run_until t2 (showToast m1 d1 s))))
       = Some ''1''
   \<and> timers (showToast m2 d2 (run_until t2 (showToast m1 d1 s)))
       = [(now s + d1, FadeOut), (t2 + d2, FadeOut)]
   \<and> map_option toast_text
        (toast (run_until (now s + d1) (showToast m2 d2 (run_until t2 (showToast m1 d1 s)))))
       = Some m2
   \<and> map_option toast_opacity
        (toast (run_until (now s + d1) (showToast m2 d2 (run_until t2 (showToast m1 d1 s)))))
       = Some ''0''
   \<and> map_option toast_display
        (toast (run_until (now s + d1 + 220) (showToast m2 d2 (run_until t2 (showToast m1 d1 s)))))
       = Some ''none''"
    unfolding s2_def s1_def by blast
qed

theorem showToast_again_keeps_first_timeout_witness:
  "timers empty_page = [] \<and> now empty_page \<le> 1000 \<and> 1000 < now empty_page + 2500
   \<and> now empty_page + 2500 < 1000 + 2500
   \<and> map_option toast_text
        (toast (run_until (now empty_page + 2500) (showToast (Message ''second'') 2500
           (run_until 1000 (showToast (Message ''first'') 2500 empty_page)))))
       = Some (Message ''second'')
   \<and> map_option toast_opacity
        (toast (run_until (now empty_page + 2500) (showToast (Message ''second'') 2500
           (run_until 1000 (showToast (Message ''first'') 2500 empty_page)))))
       = Some ''0''"
proof -
  have h: "timers empty_page = [] \<and> now empty_page \<le> 1000 \<and> 1000 < now empty_page + 2500
           \<and> now empty_page + 2500 < 1000 + 2500"
    by (simp add: empty_page_def)
  from h showToast_again_keeps_first_timeout
      [of empty_page 1000 2500 2500 "Message ''second''" "Message ''first''"]
  show ?thesis by blast
qed

end
